theory Spec2Isabelle
  imports Complex_Main
begin

section \<open>Conventions of the embedding\<close>

text \<open>
  The watchers of the bot are TypeScript classes that mutate their own fields, write to a
  shared SQLite database, emit events and call the IQ API.  Each method becomes a function
  from the state before the call to the state after it:
  \<^item> a JavaScript \<open>number\<close> is a \<open>real\<close>: finite values, no rounding, no overflow, no NaN;
  \<^item> a \<open>Date\<close> and \<open>Date.now()\<close> are a \<open>nat\<close> of milliseconds; a method reads the clock
    once per call, the reading is its parameter \<open>now\<close>;
  \<^item> the answer of the IQ API to the one request a cycle makes is a parameter
    (\<open>Inl\<close> the error the client throws after its retries, \<open>Inr\<close> the payload); every
    request that is really sent is appended to \<open>apiCalls\<close>;
  \<^item> the events handed to \<open>EventEmitter.emit\<close> are appended to \<open>emitted\<close>, in order;
  \<^item> the singleton \<open>database\<close> is a record of its tables, each table the list of its
    rows in insertion order; a statement succeeds unless it would put \<open>undefined\<close> into a
    \<open>NOT NULL\<close> column;
  \<^item> a timer handle (\<open>intervalId\<close>) is \<open>Some p\<close> when an interval timer of period
    \<open>p\<close> milliseconds is armed, \<open>None\<close> for \<open>null\<close>; the handle of a tracked token can
    also be one that \<open>clearInterval\<close> has cancelled and that is still in the field;
  \<^item> a method that can throw returns an \<open>outcome\<close> beside the state it leaves behind; an
    error is the string of its message, and an error that the engine or the database
    driver raises is the string of its kind;
  \<^item> a value that can be \<open>undefined\<close> at run time is an \<open>option\<close>, \<open>None\<close> for \<open>undefined\<close>;
  \<^item> console output and the text of alert messages (currency formatting) are left out.
  A cycle runs from its request to its last write without another method in between.
\<close>

type_synonym timestamp = nat

datatype outcome = Returned | Threw string

text \<open>Reading a property of \<open>undefined\<close>.\<close>

definition typeError :: string where
  "typeError = ''TypeError''"

text \<open>An \<open>INSERT\<close> whose value for a \<open>NOT NULL\<close> column is \<open>undefined\<close>.\<close>

definition insertFailed :: string where
  "insertFailed = ''NOT NULL''"

section \<open>agents.ts\<close>

record Holding =
  h_tokenContract :: string
  tokenAmount :: real
  h_name :: string
  currentPriceInUsd :: real

text \<open>\<open>tokenAmount\<close> holds the number \<open>parseFloat\<close> reads from the string of the payload.\<close>

definition calculateHoldingsValue :: "Holding list \<Rightarrow> real" where
  "calculateHoldingsValue holdings =
     foldl (\<lambda>total holding. total + tokenAmount holding * currentPriceInUsd holding) 0 holdings"

definition calculatePercentageChange :: "real \<Rightarrow> real \<Rightarrow> real" where
  "calculatePercentageChange oldValue newValue =
     (if oldValue = 0 then 0 else ((newValue - oldValue) / oldValue) * 100)"

section \<open>database.ts\<close>

text \<open>\<open>DatabaseService\<close>, in \<open>src/unnamed/part_001\<close> from line 777.\<close>

record PriceHistoryRecord =
  ph_token_contract :: string
  ph_token_name :: string
  ph_price :: real
  ph_timestamp :: timestamp

datatype alertCategory = for_holdings | for_price | for_iq_price

record AlertRecord =
  al_type :: alertCategory
  al_token_contract :: "string option"
  al_timestamp :: timestamp
  al_triggered :: bool

record WatchedToken =
  token_contract :: string
  token_name :: string
  price_change_threshold :: real
  minor_threshold :: real
  major_threshold :: real
  critical_threshold :: real
  check_interval :: real
  last_price :: real
  last_check_time :: timestamp
  is_active :: bool
  enable_minor_alerts :: bool
  enable_major_alerts :: bool
  enable_critical_alerts :: bool
  updated_at :: timestamp

text \<open>
  The autoincrement \<open>id\<close> of a row is its place in the list; \<open>created_at\<close>, which only
  orders the listing of \<open>getWatchedTokens\<close>, is not kept.
\<close>

record database =
  price_history :: "PriceHistoryRecord list"
  alerts :: "AlertRecord list"
  watched_tokens :: "WatchedToken list"

definition addPriceHistory :: "database \<Rightarrow> PriceHistoryRecord \<Rightarrow> database" where
  "addPriceHistory d record = d\<lparr>price_history := price_history d @ [record]\<rparr>"

definition addAlert :: "database \<Rightarrow> AlertRecord \<Rightarrow> database" where
  "addAlert d record = d\<lparr>alerts := alerts d @ [record]\<rparr>"

text \<open>
  \<open>INSERT OR REPLACE\<close> on a table whose \<open>token_contract\<close> is \<open>UNIQUE\<close>: the row in
  conflict is deleted, the new row is inserted.
\<close>

definition addWatchedToken :: "database \<Rightarrow> WatchedToken \<Rightarrow> database" where
  "addWatchedToken d token =
     d\<lparr>watched_tokens :=
         filter (\<lambda>r. token_contract r \<noteq> token_contract token) (watched_tokens d) @ [token]\<rparr>"

text \<open>\<open>Partial<WatchedToken>\<close>: a field that is \<open>undefined\<close> is \<open>None\<close>.\<close>

record WatchedTokenUpdates =
  u_tokenName :: "string option"
  u_priceChangeThreshold :: "real option"
  u_minorThreshold :: "real option"
  u_majorThreshold :: "real option"
  u_criticalThreshold :: "real option"
  u_checkInterval :: "real option"
  u_lastPrice :: "real option"
  u_lastCheckTime :: "timestamp option"
  u_isActive :: "bool option"
  u_enableMinorAlerts :: "bool option"
  u_enableMajorAlerts :: "bool option"
  u_enableCriticalAlerts :: "bool option"

definition noUpdates :: WatchedTokenUpdates where
  "noUpdates =
     \<lparr>u_tokenName = None, u_priceChangeThreshold = None, u_minorThreshold = None,
      u_majorThreshold = None, u_criticalThreshold = None, u_checkInterval = None,
      u_lastPrice = None, u_lastCheckTime = None, u_isActive = None,
      u_enableMinorAlerts = None, u_enableMajorAlerts = None, u_enableCriticalAlerts = None\<rparr>"

definition hasFields :: "WatchedTokenUpdates \<Rightarrow> bool" where
  "hasFields u \<longleftrightarrow>
     u_tokenName u \<noteq> None \<or> u_priceChangeThreshold u \<noteq> None \<or> u_minorThreshold u \<noteq> None \<or>
     u_majorThreshold u \<noteq> None \<or> u_criticalThreshold u \<noteq> None \<or> u_checkInterval u \<noteq> None \<or>
     u_lastPrice u \<noteq> None \<or> u_lastCheckTime u \<noteq> None \<or> u_isActive u \<noteq> None \<or>
     u_enableMinorAlerts u \<noteq> None \<or> u_enableMajorAlerts u \<noteq> None \<or>
     u_enableCriticalAlerts u \<noteq> None"

definition orKeep :: "'a option \<Rightarrow> 'a \<Rightarrow> 'a" where
  "orKeep new old = (case new of None \<Rightarrow> old | Some v \<Rightarrow> v)"

definition setFields :: "WatchedTokenUpdates \<Rightarrow> timestamp \<Rightarrow> WatchedToken \<Rightarrow> WatchedToken" where
  "setFields u now r =
     r\<lparr>token_name := orKeep (u_tokenName u) (token_name r),
       price_change_threshold := orKeep (u_priceChangeThreshold u) (price_change_threshold r),
       minor_threshold := orKeep (u_minorThreshold u) (minor_threshold r),
       major_threshold := orKeep (u_majorThreshold u) (major_threshold r),
       critical_threshold := orKeep (u_criticalThreshold u) (critical_threshold r),
       check_interval := orKeep (u_checkInterval u) (check_interval r),
       last_price := orKeep (u_lastPrice u) (last_price r),
       last_check_time := orKeep (u_lastCheckTime u) (last_check_time r),
       is_active := orKeep (u_isActive u) (is_active r),
       enable_minor_alerts := orKeep (u_enableMinorAlerts u) (enable_minor_alerts r),
       enable_major_alerts := orKeep (u_enableMajorAlerts u) (enable_major_alerts r),
       enable_critical_alerts := orKeep (u_enableCriticalAlerts u) (enable_critical_alerts r),
       updated_at := now\<rparr>"

definition updateWatchedToken ::
  "database \<Rightarrow> string \<Rightarrow> WatchedTokenUpdates \<Rightarrow> timestamp \<Rightarrow> database" where
  "updateWatchedToken d tokenContract updates now =
     (if \<not> hasFields updates then d
      else d\<lparr>watched_tokens :=
               map (\<lambda>r. if token_contract r = tokenContract then setFields updates now r else r)
                 (watched_tokens d)\<rparr>)"

section \<open>price-watcher.ts\<close>

datatype alertType =
  price_increase | price_decrease | significant_change | minor_change | major_change
  | critical_change

datatype severity = Low | Medium | High | Critical

record PriceAlert =
  pa_type :: alertType
  pa_severity :: severity
  pa_tokenContract :: string
  pa_tokenName :: "string option"
  pa_currentPrice :: real
  pa_previousPrice :: real
  pa_change :: real
  pa_changePercentage :: real
  pa_threshold :: real
  pa_timestamp :: timestamp

record ThresholdConfig =
  minor :: real
  major :: real
  critical :: real

text \<open>
  The interface \<open>TokenWatchConfig\<close> requires every field, and \<open>addToken\<close> sets them all.
  The spread in \<open>updateTokenConfig\<close> copies a key of the update that holds \<open>undefined\<close>, so
  a field of a stored configuration holds its value or \<open>undefined\<close>.
\<close>

record TokenWatchConfig =
  tokenContract :: "string option"
  tokenName :: "string option"
  thresholds :: "ThresholdConfig option"
  checkInterval :: "real option"
  enableMinorAlerts :: "bool option"
  enableMajorAlerts :: "bool option"
  enableCriticalAlerts :: "bool option"

text \<open>
  A handle returned by \<open>setInterval\<close> with its delay in milliseconds, or a handle that
  \<open>clearInterval\<close> has cancelled.  Both are truthy.
\<close>

datatype timer = Armed real | Cleared

record TrackedToken =
  config :: TokenWatchConfig
  lastPrice :: real
  lastCheckTime :: timestamp
  intervalId :: "timer option"

datatype event =
  ev_alert PriceAlert
  | ev_error string
  | ev_token_added string string real

record PriceWatcher =
  trackedTokens :: "string \<rightharpoonup> TrackedToken"
  isRunning :: bool
  db :: database
  emitted :: "event list"
  apiCalls :: "string list"

text \<open>
  The four locals \<open>alertType\<close>, \<open>alertSeverity\<close>, \<open>threshold\<close> and \<open>shouldAlert\<close> of
  \<open>checkTokenPrice\<close> and the chain of tests that sets them (lines 344 to 365 of
  \<open>src/src/services/price-watcher.ts\<close>).  The chain reads the three thresholds from the
  object \<open>token.config.thresholds\<close>, here \<open>th\<close>; \<open>checkTokenPrice\<close> below says what happens
  when that object is \<open>undefined\<close>.  The local \<open>shouldAlert\<close> is only ever tested, so it is
  kept as the truth value of the flag it copies (\<open>undefined\<close> is falsy).
\<close>

record determination =
  alertType :: alertType
  alertSeverity :: severity
  threshold :: real
  shouldAlert :: bool

definition determineAlert ::
  "TokenWatchConfig \<Rightarrow> ThresholdConfig \<Rightarrow> real \<Rightarrow> determination" where
  "determineAlert c th changePercentage =
     (if \<bar>changePercentage\<bar> \<ge> critical th then
        \<lparr>alertType = critical_change, alertSeverity = Critical,
         threshold = critical th, shouldAlert = (enableCriticalAlerts c = Some True)\<rparr>
      else if \<bar>changePercentage\<bar> \<ge> major th then
        \<lparr>alertType = major_change, alertSeverity = High,
         threshold = major th, shouldAlert = (enableMajorAlerts c = Some True)\<rparr>
      else if \<bar>changePercentage\<bar> \<ge> minor th then
        \<lparr>alertType = minor_change, alertSeverity = Low,
         threshold = minor th, shouldAlert = (enableMinorAlerts c = Some True)\<rparr>
      else
        \<lparr>alertType = significant_change, alertSeverity = Medium,
         threshold = 0, shouldAlert = False\<rparr>)"

text \<open>
  Inside the \<open>try\<close> of \<open>checkTokenPrice\<close> two statements can throw besides the request:
  the first test of the chain, which reads \<open>token.config.thresholds.critical\<close>, when the
  thresholds are \<open>undefined\<close>; and \<open>addPriceHistory\<close>, whose column \<open>token_name\<close> is
  \<open>NOT NULL\<close>, when the name is \<open>undefined\<close>.  The \<open>catch\<close> emits the error; what was
  done before the throw stays done.
\<close>

definition checkTokenPrice ::
  "PriceWatcher \<Rightarrow> string \<Rightarrow> string + real \<Rightarrow> timestamp \<Rightarrow> PriceWatcher" where
  "checkTokenPrice pw contract stats now =
     (case trackedTokens pw contract of
        None \<Rightarrow> pw
      | Some token \<Rightarrow>
          (let pw0 = pw\<lparr>apiCalls := apiCalls pw @ [contract]\<rparr> in
           case stats of
             Inl err \<Rightarrow> pw0\<lparr>emitted := emitted pw0 @ [ev_error err]\<rparr>
           | Inr currentPrice \<Rightarrow>
               (let previousPrice = lastPrice token;
                    change = currentPrice - previousPrice;
                    changePercentage = calculatePercentageChange previousPrice currentPrice
                in if \<bar>changePercentage\<bar> = 0 then pw0
                   else
                     (case thresholds (config token) of
                        None \<Rightarrow> pw0\<lparr>emitted := emitted pw0 @ [ev_error typeError]\<rparr>
                      | Some th \<Rightarrow>
                          (let d = determineAlert (config token) th changePercentage;
                               pw1 =
                                 (if shouldAlert d \<and> threshold d > 0 then
                                    pw0\<lparr>emitted := emitted pw0 @
                                      [ev_alert
                                        \<lparr>pa_type = alertType d, pa_severity = alertSeverity d,
                                         pa_tokenContract = contract,
                                         pa_tokenName = tokenName (config token),
                                         pa_currentPrice = currentPrice,
                                         pa_previousPrice = previousPrice,
                                         pa_change = change,
                                         pa_changePercentage = changePercentage,
                                         pa_threshold = threshold d,
                                         pa_timestamp = now\<rparr>]\<rparr>
                                  else pw0)
                           in case tokenName (config token) of
                                None \<Rightarrow> pw1\<lparr>emitted := emitted pw1 @ [ev_error insertFailed]\<rparr>
                              | Some name \<Rightarrow>
                                  (let pw2 = pw1\<lparr>db := addPriceHistory (db pw1)
                                           \<lparr>ph_token_contract = contract,
                                            ph_token_name = name,
                                            ph_price = currentPrice,
                                            ph_timestamp = now\<rparr>\<rparr>;
                                       pw3 = pw2\<lparr>trackedTokens := (trackedTokens pw2)
                                           (contract \<mapsto> token\<lparr>lastPrice := currentPrice,
                                                                   lastCheckTime := now\<rparr>)\<rparr>
                                   in pw3\<lparr>db := updateWatchedToken (db pw3) contract
                                            (noUpdates\<lparr>u_lastPrice := Some currentPrice,
                                                        u_lastCheckTime := Some now\<rparr>)
                                            now\<rparr>))))))"

text \<open>
  The delay handed to \<open>setInterval\<close> is \<open>checkInterval * 1000\<close>; with \<open>checkInterval\<close>
  \<open>undefined\<close> that is \<open>NaN\<close>, for which Node arms the timer with 1 millisecond.
\<close>

definition intervalDelay :: "real option \<Rightarrow> real" where
  "intervalDelay seconds = (case seconds of None \<Rightarrow> 1 | Some s \<Rightarrow> s * 1000)"

text \<open>
  \<open>startTrackingToken\<close> cancels the old timer without clearing the field, then logs
  \<open>token.config.thresholds.minor\<close>, which throws a \<open>TypeError\<close> when the thresholds are
  \<open>undefined\<close> (the promise is rejected before a new timer is armed), then arms the new
  timer and awaits the first check.
\<close>

definition startTrackingToken ::
  "PriceWatcher \<Rightarrow> string \<Rightarrow> string + real \<Rightarrow> timestamp \<Rightarrow> outcome \<times> PriceWatcher" where
  "startTrackingToken pw contract stats now =
     (case trackedTokens pw contract of
        None \<Rightarrow> (Returned, pw)
      | Some token \<Rightarrow>
          (case thresholds (config token) of
             None \<Rightarrow>
               (Threw typeError,
                if intervalId token \<noteq> None then
                  pw\<lparr>trackedTokens := (trackedTokens pw)
                        (contract \<mapsto> token\<lparr>intervalId := Some Cleared\<rparr>)\<rparr>
                else pw)
           | Some th \<Rightarrow>
               (Returned,
                checkTokenPrice
                  (pw\<lparr>trackedTokens := (trackedTokens pw)
                        (contract \<mapsto>
                           token\<lparr>intervalId :=
                             Some (Armed (intervalDelay (checkInterval (config token))))\<rparr>)\<rparr>)
                  contract stats now)))"

definition stopTrackingToken :: "PriceWatcher \<Rightarrow> string \<Rightarrow> PriceWatcher" where
  "stopTrackingToken pw contract =
     (case trackedTokens pw contract of
        None \<Rightarrow> pw
      | Some token \<Rightarrow>
          (if intervalId token \<noteq> None then
             pw\<lparr>trackedTokens := (trackedTokens pw)(contract \<mapsto> token\<lparr>intervalId := None\<rparr>)\<rparr>
           else pw))"

text \<open>
  \<open>addToken\<close>: \<open>stats\<close> answers the baseline request, \<open>stats2\<close> the request of the first
  check that \<open>startTrackingToken\<close> makes when the watcher is running.  Whatever is thrown
  inside the \<open>try\<close> is thrown again by the \<open>catch\<close>.
\<close>

definition addToken ::
  "PriceWatcher \<Rightarrow> string \<Rightarrow> string \<Rightarrow> real \<Rightarrow> real \<Rightarrow> string + real \<Rightarrow> string + real \<Rightarrow>
   timestamp \<Rightarrow> outcome \<times> PriceWatcher" where
  "addToken pw contract name priceChangeThreshold interval stats stats2 now =
     (if trackedTokens pw contract \<noteq> None then (Returned, pw)
      else
        (let c = \<lparr>tokenContract = Some contract, tokenName = Some name,
                  thresholds = Some \<lparr>minor = priceChangeThreshold,
                                     major = priceChangeThreshold * 3,
                                     critical = priceChangeThreshold * 5\<rparr>,
                  checkInterval = Some interval,
                  enableMinorAlerts = Some True, enableMajorAlerts = Some True,
                  enableCriticalAlerts = Some True\<rparr>;
             pw0 = pw\<lparr>apiCalls := apiCalls pw @ [contract]\<rparr>
         in case stats of
              Inl err \<Rightarrow> (Threw err, pw0)
            | Inr currentPriceInUSD \<Rightarrow>
                (let trackedToken = \<lparr>config = c, lastPrice = currentPriceInUSD,
                                     lastCheckTime = now, intervalId = None\<rparr>;
                     pw1 = pw0\<lparr>trackedTokens := (trackedTokens pw0)(contract \<mapsto> trackedToken)\<rparr>;
                     pw2 = pw1\<lparr>db := addWatchedToken (db pw1)
                              \<lparr>token_contract = contract, token_name = name,
                               price_change_threshold = priceChangeThreshold,
                               minor_threshold = priceChangeThreshold,
                               major_threshold = priceChangeThreshold * 3,
                               critical_threshold = priceChangeThreshold * 5,
                               check_interval = interval,
                               last_price = currentPriceInUSD,
                               last_check_time = now, is_active = True,
                               enable_minor_alerts = True, enable_major_alerts = True,
                               enable_critical_alerts = True, updated_at = now\<rparr>\<rparr>;
                     started = (if isRunning pw2 then startTrackingToken pw2 contract stats2 now
                                else (Returned, pw2))
                 in case fst started of
                      Threw err \<Rightarrow> (Threw err, snd started)
                    | Returned \<Rightarrow>
                        (Returned,
                         (snd started)\<lparr>emitted := emitted (snd started) @
                           [ev_token_added contract name currentPriceInUSD]\<rparr>))))"

text \<open>
  \<open>Partial<TokenWatchConfig>\<close>, merged by \<open>{ ...token.config, ...updates }\<close>.  A key of
  \<open>updates\<close> is absent (\<open>None\<close>), or present and holding \<open>undefined\<close> (\<open>Some None\<close>), or
  present and holding a value (\<open>Some (Some v)\<close>).  The spread copies every key that is
  present, also one that holds \<open>undefined\<close>; an absent key keeps the field.
\<close>

record TokenWatchConfigUpdates =
  p_tokenContract :: "string option option"
  p_tokenName :: "string option option"
  p_thresholds :: "ThresholdConfig option option"
  p_checkInterval :: "real option option"
  p_enableMinorAlerts :: "bool option option"
  p_enableMajorAlerts :: "bool option option"
  p_enableCriticalAlerts :: "bool option option"

definition mergeConfig :: "TokenWatchConfig \<Rightarrow> TokenWatchConfigUpdates \<Rightarrow> TokenWatchConfig" where
  "mergeConfig c updates =
     \<lparr>tokenContract = orKeep (p_tokenContract updates) (tokenContract c),
      tokenName = orKeep (p_tokenName updates) (tokenName c),
      thresholds = orKeep (p_thresholds updates) (thresholds c),
      checkInterval = orKeep (p_checkInterval updates) (checkInterval c),
      enableMinorAlerts = orKeep (p_enableMinorAlerts updates) (enableMinorAlerts c),
      enableMajorAlerts = orKeep (p_enableMajorAlerts updates) (enableMajorAlerts c),
      enableCriticalAlerts = orKeep (p_enableCriticalAlerts updates) (enableCriticalAlerts c)\<rparr>"

text \<open>
  \<open>updateTokenConfig\<close> has no test of the new configuration.  It assigns the merged
  configuration first.  The argument of \<open>updateWatchedToken\<close> then reads
  \<open>token.config.thresholds.minor\<close>, which throws a \<open>TypeError\<close> when the merged thresholds
  are \<open>undefined\<close>: the configuration in memory is already replaced, nothing else is done.
  The other fields are handed over as they are, and \<open>updateWatchedToken\<close> skips those that
  are \<open>undefined\<close>.  \<open>stopTrackingToken\<close> and \<open>startTrackingToken\<close> are called without
  awaiting them: the timer is re-armed before the method returns, \<open>stats\<close> answers the
  request of the check that \<open>startTrackingToken\<close> begins, and the outcome of
  \<open>startTrackingToken\<close> is not looked at.
\<close>

definition updateTokenConfig ::
  "PriceWatcher \<Rightarrow> string \<Rightarrow> TokenWatchConfigUpdates \<Rightarrow> string + real \<Rightarrow> timestamp \<Rightarrow>
   outcome \<times> PriceWatcher" where
  "updateTokenConfig pw contract updates stats now =
     (case trackedTokens pw contract of
        None \<Rightarrow> (Returned, pw)
      | Some token \<Rightarrow>
          (let c = mergeConfig (config token) updates;
               pw1 = pw\<lparr>trackedTokens := (trackedTokens pw)(contract \<mapsto> token\<lparr>config := c\<rparr>)\<rparr>
           in case thresholds c of
                None \<Rightarrow> (Threw typeError, pw1)
              | Some th \<Rightarrow>
                  (let pw2 = pw1\<lparr>db := updateWatchedToken (db pw1) contract
                           (noUpdates\<lparr>u_tokenName := tokenName c,
                                       u_minorThreshold := Some (minor th),
                                       u_majorThreshold := Some (major th),
                                       u_criticalThreshold := Some (critical th),
                                       u_checkInterval := checkInterval c,
                                       u_enableMinorAlerts := enableMinorAlerts c,
                                       u_enableMajorAlerts := enableMajorAlerts c,
                                       u_enableCriticalAlerts := enableCriticalAlerts c\<rparr>)
                           now\<rparr>
                   in if isRunning pw2 \<and> intervalId token \<noteq> None then
                        (Returned,
                         snd (startTrackingToken (stopTrackingToken pw2 contract) contract stats
                                now))
                      else (Returned, pw2))))"

text \<open>
  The argument of \<open>updateTokenAlerts\<close>: each flag is tested with \<open>!== undefined\<close>, so an
  absent key and a key holding \<open>undefined\<close> are the same \<open>None\<close>.
\<close>

record AlertConfig =
  a_enableMinorAlerts :: "bool option"
  a_enableMajorAlerts :: "bool option"
  a_enableCriticalAlerts :: "bool option"

definition notTracked :: "string \<Rightarrow> string" where
  "notTracked contract = ''Token '' @ contract @ '' is not being tracked''"

definition assignDefined :: "'a option \<Rightarrow> 'a option \<Rightarrow> 'a option" where
  "assignDefined new old = (case new of None \<Rightarrow> old | Some v \<Rightarrow> Some v)"

definition updateTokenAlerts ::
  "PriceWatcher \<Rightarrow> string \<Rightarrow> AlertConfig \<Rightarrow> timestamp \<Rightarrow> outcome \<times> PriceWatcher" where
  "updateTokenAlerts pw contract alertConfig now =
     (case trackedTokens pw contract of
        None \<Rightarrow> (Threw (notTracked contract), pw)
      | Some token \<Rightarrow>
          (let c = (config token)
                 \<lparr>enableMinorAlerts :=
                    assignDefined (a_enableMinorAlerts alertConfig)
                      (enableMinorAlerts (config token)),
                  enableMajorAlerts :=
                    assignDefined (a_enableMajorAlerts alertConfig)
                      (enableMajorAlerts (config token)),
                  enableCriticalAlerts :=
                    assignDefined (a_enableCriticalAlerts alertConfig)
                      (enableCriticalAlerts (config token))\<rparr>;
               pw1 = pw\<lparr>trackedTokens := (trackedTokens pw)(contract \<mapsto> token\<lparr>config := c\<rparr>)\<rparr>
           in (Returned,
               pw1\<lparr>db := updateWatchedToken (db pw1) contract
                     (noUpdates\<lparr>u_enableMinorAlerts := enableMinorAlerts c,
                                 u_enableMajorAlerts := enableMajorAlerts c,
                                 u_enableCriticalAlerts := enableCriticalAlerts c\<rparr>)
                     now\<rparr>)))"

section \<open>holdings-watcher.ts\<close>

text \<open>\<open>HoldingsWatcher\<close>, in \<open>src/unnamed/part_001\<close> from line 514.\<close>

datatype holdingsAlertType = threshold_reached | portfolio_significant_change

record HoldingsAlert =
  ha_type :: holdingsAlertType
  ha_totalValue :: real
  ha_previousValue :: "real option"
  ha_change :: "real option"
  ha_changePercentage :: "real option"
  ha_holdings :: "Holding list"
  ha_timestamp :: timestamp

record WatcherConfig =
  address :: string
  thresholdUsd :: real
  hw_checkInterval :: real
  significantChangePercentage :: real

datatype hw_event = hw_alert HoldingsAlert | hw_error string

record HoldingsWatcher =
  hw_config :: WatcherConfig
  hw_isRunning :: bool
  hw_intervalId :: "real option"
  lastKnownValue :: real
  hw_lastCheckTime :: timestamp
  thresholdReached :: bool
  hw_db :: database
  hw_emitted :: "hw_event list"
  hw_apiCalls :: "string list"

definition storeAndEmit :: "HoldingsWatcher \<Rightarrow> HoldingsAlert \<Rightarrow> HoldingsWatcher" where
  "storeAndEmit hw a =
     hw\<lparr>hw_db := addAlert (hw_db hw)
            \<lparr>al_type = for_holdings, al_token_contract = None,
             al_timestamp = ha_timestamp a, al_triggered = False\<rparr>,
        hw_emitted := hw_emitted hw @ [hw_alert a]\<rparr>"

definition checkHoldings ::
  "HoldingsWatcher \<Rightarrow> string + Holding list \<Rightarrow> timestamp \<Rightarrow> HoldingsWatcher" where
  "checkHoldings hw holdingsData now =
     (let hw0 = hw\<lparr>hw_apiCalls := hw_apiCalls hw @ [address (hw_config hw)]\<rparr> in
      case holdingsData of
        Inl err \<Rightarrow> hw0\<lparr>hw_emitted := hw_emitted hw0 @ [hw_error err]\<rparr>
      | Inr hs \<Rightarrow>
          (let currentValue = calculateHoldingsValue hs;
               hw1 =
                 (if lastKnownValue hw0 > 0 then
                    (let change = currentValue - lastKnownValue hw0;
                         changePercentage =
                           calculatePercentageChange (lastKnownValue hw0) currentValue
                     in if \<bar>changePercentage\<bar> > 0 \<and>
                           \<bar>changePercentage\<bar> \<ge> significantChangePercentage (hw_config hw0)
                        then
                          storeAndEmit hw0
                            \<lparr>ha_type = portfolio_significant_change,
                             ha_totalValue = currentValue,
                             ha_previousValue = Some (lastKnownValue hw0),
                             ha_change = Some change,
                             ha_changePercentage = Some changePercentage,
                             ha_holdings = hs, ha_timestamp = now\<rparr>
                        else hw0)
                  else hw0);
               hw2 =
                 (if currentValue \<ge> thresholdUsd (hw_config hw1) \<and> \<not> thresholdReached hw1 then
                    storeAndEmit (hw1\<lparr>thresholdReached := True\<rparr>)
                      \<lparr>ha_type = threshold_reached, ha_totalValue = currentValue,
                       ha_previousValue = None, ha_change = None,
                       ha_changePercentage = None,
                       ha_holdings = hs, ha_timestamp = now\<rparr>
                  else if currentValue < thresholdUsd (hw_config hw1) \<and> thresholdReached hw1 then
                    hw1\<lparr>thresholdReached := False\<rparr>
                  else hw1)
           in hw2\<lparr>lastKnownValue := currentValue, hw_lastCheckTime := now\<rparr>))"

section \<open>iq-price-watcher.ts\<close>

text \<open>\<open>IQPriceWatcher\<close>, in \<open>src/unnamed/part_001\<close> from line 1223.\<close>

datatype iqAlertType = iq_price_increase | iq_price_decrease | iq_significant_change

record IQPriceAlert =
  ia_type :: iqAlertType
  ia_severity :: severity
  ia_currentPrice :: real
  ia_previousPrice :: real
  ia_change :: real
  ia_changePercentage :: real
  ia_threshold :: real
  ia_timestamp :: timestamp

record IQWatcherConfig =
  minorThreshold :: real
  majorThreshold :: real
  criticalThreshold :: real
  iq_checkInterval :: real
  iq_enableMinorAlerts :: bool
  iq_enableMajorAlerts :: bool
  iq_enableCriticalAlerts :: bool

datatype iq_event = iq_alert IQPriceAlert | iq_error string

record IQPriceWatcher =
  iq_config :: IQWatcherConfig
  iq_isRunning :: bool
  iq_intervalId :: "real option"
  lastKnownPrice :: real
  iq_lastCheckTime :: timestamp
  iq_db :: database
  iq_emitted :: "iq_event list"
  iq_apiCalls :: "string list"

text \<open>
  The locals of \<open>checkIQPrice\<close> and the chain of tests that sets them (lines 1352 to 1373
  of \<open>src/unnamed/part_001\<close>).
\<close>

record iq_determination =
  iq_alertType :: iqAlertType
  iq_alertSeverity :: severity
  iq_threshold :: real
  iq_shouldAlert :: bool

definition determineIQAlert :: "IQWatcherConfig \<Rightarrow> real \<Rightarrow> real \<Rightarrow> iq_determination" where
  "determineIQAlert c change changePercentage =
     (if \<bar>changePercentage\<bar> \<ge> criticalThreshold c then
        \<lparr>iq_alertType = iq_significant_change, iq_alertSeverity = Critical,
         iq_threshold = criticalThreshold c, iq_shouldAlert = iq_enableCriticalAlerts c\<rparr>
      else if \<bar>changePercentage\<bar> \<ge> majorThreshold c then
        \<lparr>iq_alertType = (if change > 0 then iq_price_increase else iq_price_decrease),
         iq_alertSeverity = High,
         iq_threshold = majorThreshold c, iq_shouldAlert = iq_enableMajorAlerts c\<rparr>
      else if \<bar>changePercentage\<bar> \<ge> minorThreshold c then
        \<lparr>iq_alertType = (if change > 0 then iq_price_increase else iq_price_decrease),
         iq_alertSeverity = Low,
         iq_threshold = minorThreshold c, iq_shouldAlert = iq_enableMinorAlerts c\<rparr>
      else
        \<lparr>iq_alertType = iq_significant_change, iq_alertSeverity = Medium,
         iq_threshold = 0, iq_shouldAlert = False\<rparr>)"

definition recordIQPrice :: "IQPriceWatcher \<Rightarrow> real \<Rightarrow> timestamp \<Rightarrow> IQPriceWatcher" where
  "recordIQPrice iq currentPrice now =
     iq\<lparr>iq_db := addPriceHistory (iq_db iq)
            \<lparr>ph_token_contract = ''IQ_TOKEN'', ph_token_name = ''IQ (Everipedia)'',
             ph_price = currentPrice, ph_timestamp = now\<rparr>,
        lastKnownPrice := currentPrice, iq_lastCheckTime := now\<rparr>"

definition checkIQPrice ::
  "IQPriceWatcher \<Rightarrow> string + real \<Rightarrow> timestamp \<Rightarrow> IQPriceWatcher" where
  "checkIQPrice iq pricesData now =
     (let iq0 = iq\<lparr>iq_apiCalls := iq_apiCalls iq @ [''/prices'']\<rparr> in
      case pricesData of
        Inl err \<Rightarrow> iq0\<lparr>iq_emitted := iq_emitted iq0 @ [iq_error err]\<rparr>
      | Inr currentPrice \<Rightarrow>
          (let previousPrice = lastKnownPrice iq0 in
           if previousPrice > 0 then
             (let change = currentPrice - previousPrice;
                  changePercentage = calculatePercentageChange previousPrice currentPrice
              in if \<bar>changePercentage\<bar> = 0 then iq0
                 else
                   (let d = determineIQAlert (iq_config iq0) change changePercentage;
                        iq1 =
                          (if iq_shouldAlert d \<and> iq_threshold d > 0 then
                             iq0\<lparr>iq_db := addAlert (iq_db iq0)
                                    \<lparr>al_type = for_iq_price, al_token_contract = None,
                                     al_timestamp = now, al_triggered = False\<rparr>,
                                 iq_emitted := iq_emitted iq0 @
                                   [iq_alert
                                     \<lparr>ia_type = iq_alertType d,
                                      ia_severity = iq_alertSeverity d,
                                      ia_currentPrice = currentPrice,
                                      ia_previousPrice = previousPrice,
                                      ia_change = change,
                                      ia_changePercentage = changePercentage,
                                      ia_threshold = iq_threshold d,
                                      ia_timestamp = now\<rparr>]\<rparr>
                           else iq0)
                    in recordIQPrice iq1 currentPrice now))
           else recordIQPrice iq0 currentPrice now))"

section \<open>Timer ticks and observations\<close>

text \<open>
  The callback of \<open>setInterval\<close> runs one cycle per tick.  A run of the loop is the list of
  its ticks, each with the answer of the API and the clock reading of that tick.
\<close>

definition monitorHoldings ::
  "HoldingsWatcher \<Rightarrow> ((string + Holding list) \<times> timestamp) list \<Rightarrow> HoldingsWatcher" where
  "monitorHoldings hw ticks =
     foldl (\<lambda>w (holdingsData, now). checkHoldings w holdingsData now) hw ticks"

text \<open>The \<open>threshold_reached\<close> alerts among the emitted events: total value and time of each.\<close>

fun thresholdAlerts :: "hw_event list \<Rightarrow> (real \<times> timestamp) list" where
  "thresholdAlerts [] = []"
| "thresholdAlerts (hw_alert a # es) =
     (if ha_type a = threshold_reached then (ha_totalValue a, ha_timestamp a) # thresholdAlerts es
      else thresholdAlerts es)"
| "thresholdAlerts (hw_error err # es) = thresholdAlerts es"

definition exampleTiers :: ThresholdConfig where
  "exampleTiers = \<lparr>minor = 2, major = 10, critical = 20\<rparr>"

definition exampleConfig :: TokenWatchConfig where
  "exampleConfig =
     \<lparr>tokenContract = Some ''0xabc'', tokenName = Some ''ABC'',
      thresholds = Some exampleTiers,
      checkInterval = Some 60,
      enableMinorAlerts = Some True, enableMajorAlerts = Some True,
      enableCriticalAlerts = Some True\<rparr>"

definition exampleIQConfig :: IQWatcherConfig where
  "exampleIQConfig =
     \<lparr>minorThreshold = 2, majorThreshold = 10, criticalThreshold = 20,
      iq_checkInterval = 60,
      iq_enableMinorAlerts = True, iq_enableMajorAlerts = True,
      iq_enableCriticalAlerts = True\<rparr>"

definition emptyDatabase :: database where
  "emptyDatabase = \<lparr>price_history = [], alerts = [], watched_tokens = []\<rparr>"

definition exampleHoldingsWatcher :: HoldingsWatcher where
  "exampleHoldingsWatcher =
     \<lparr>hw_config = \<lparr>address = ''0xwallet'', thresholdUsd = 1000, hw_checkInterval = 300,
                    significantChangePercentage = 2\<rparr>,
      hw_isRunning = True, hw_intervalId = Some 300000,
      lastKnownValue = 0, hw_lastCheckTime = 0, thresholdReached = False,
      hw_db = emptyDatabase, hw_emitted = [], hw_apiCalls = []\<rparr>"

definition worth :: "real \<Rightarrow> Holding list" where
  "worth v = [\<lparr>h_tokenContract = ''0xabc'', tokenAmount = 1, h_name = ''ABC'',
               currentPriceInUsd = v\<rparr>]"

definition monitorToken ::
  "PriceWatcher \<Rightarrow> string \<Rightarrow> ((string + real) \<times> timestamp) list \<Rightarrow> PriceWatcher" where
  "monitorToken pw contract ticks =
     foldl (\<lambda>w (stats, now). checkTokenPrice w contract stats now) pw ticks"

text \<open>What is kept for one token: in memory, in \<open>watched_tokens\<close> and in \<open>price_history\<close>.\<close>

definition configOf :: "PriceWatcher \<Rightarrow> string \<Rightarrow> TokenWatchConfig option" where
  "configOf pw contract = map_option config (trackedTokens pw contract)"

definition lastPriceOf :: "PriceWatcher \<Rightarrow> string \<Rightarrow> real option" where
  "lastPriceOf pw contract = map_option lastPrice (trackedTokens pw contract)"

definition rowsOf :: "database \<Rightarrow> string \<Rightarrow> WatchedToken list" where
  "rowsOf d contract = filter (\<lambda>r. token_contract r = contract) (watched_tokens d)"

definition historyOf :: "database \<Rightarrow> string \<Rightarrow> PriceHistoryRecord list" where
  "historyOf d contract = filter (\<lambda>r. ph_token_contract r = contract) (price_history d)"

definition rowTiers :: "WatchedToken \<Rightarrow> real \<times> real \<times> real" where
  "rowTiers r = (minor_threshold r, major_threshold r, critical_threshold r)"

definition rowKey :: "WatchedToken \<Rightarrow> string \<times> bool \<times> real \<times> real \<times> real" where
  "rowKey r = (token_contract r, is_active r, rowTiers r)"


text \<open>The ordering of the tiers that a configuration is meant to have.\<close>

definition strictlyOrdered :: "real \<Rightarrow> real \<Rightarrow> real \<Rightarrow> bool" where
  "strictlyOrdered mi ma cr \<longleftrightarrow> 0 < mi \<and> mi < ma \<and> ma < cr"

subsection \<open>Concrete states and inputs\<close>

definition exampleToken :: TrackedToken where
  "exampleToken = \<lparr>config = exampleConfig, lastPrice = 100, lastCheckTime = 0,
                    intervalId = Some (Armed 60000)\<rparr>"

definition exampleRow :: WatchedToken where
  "exampleRow =
     \<lparr>token_contract = ''0xabc'', token_name = ''ABC'', price_change_threshold = 2,
      minor_threshold = 2, major_threshold = 10, critical_threshold = 20,
      check_interval = 60, last_price = 100, last_check_time = 0, is_active = True,
      enable_minor_alerts = True, enable_major_alerts = True, enable_critical_alerts = True,
      updated_at = 0\<rparr>"

definition examplePriceWatcher :: PriceWatcher where
  "examplePriceWatcher =
     \<lparr>trackedTokens = [''0xabc'' \<mapsto> exampleToken], isRunning = True,
      db = emptyDatabase\<lparr>watched_tokens := [exampleRow]\<rparr>, emitted = [], apiCalls = []\<rparr>"

definition exampleIQWatcher :: IQPriceWatcher where
  "exampleIQWatcher =
     \<lparr>iq_config = exampleIQConfig, iq_isRunning = True, iq_intervalId = Some 60000,
      lastKnownPrice = 100, iq_lastCheckTime = 0, iq_db = emptyDatabase,
      iq_emitted = [], iq_apiCalls = []\<rparr>"

definition idleWatcher :: PriceWatcher where
  "idleWatcher =
     \<lparr>trackedTokens = Map.empty, isRunning = False, db = emptyDatabase, emitted = [],
      apiCalls = []\<rparr>"

definition addedOnce :: PriceWatcher where
  "addedOnce = snd (addToken idleWatcher ''0xabc'' ''ABC'' 2 60 (Inr 100) (Inr 100) 0)"

text \<open>A token whose baseline request was answered with the price \<open>-100\<close>.\<close>

definition negativeBaseline :: PriceWatcher where
  "negativeBaseline =
     snd (addToken idleWatcher ''0xabc'' ''ABC'' 2 60 (Inr (- 100)) (Inr (- 100)) 0)"

definition noConfigUpdates :: TokenWatchConfigUpdates where
  "noConfigUpdates =
     \<lparr>p_tokenContract = None, p_tokenName = None, p_thresholds = None, p_checkInterval = None,
      p_enableMinorAlerts = None, p_enableMajorAlerts = None, p_enableCriticalAlerts = None\<rparr>"

definition swappedTiers :: TokenWatchConfigUpdates where
  "swappedTiers =
     noConfigUpdates\<lparr>p_thresholds := Some (Some \<lparr>minor = 10, major = 5, critical = 20\<rparr>)\<rparr>"


definition allOff :: AlertConfig where
  "allOff = \<lparr>a_enableMinorAlerts = Some False, a_enableMajorAlerts = Some False,
             a_enableCriticalAlerts = Some False\<rparr>"

text \<open>Ticks \<open>k, \<dots>, k + n - 1\<close> of a price that rises by one each tick: tick \<open>i\<close> reads \<open>i + 101\<close>.\<close>

definition risingTicks :: "nat \<Rightarrow> nat \<Rightarrow> ((string + real) \<times> timestamp) list" where
  "risingTicks k n = map (\<lambda>i. (Inr (real i + 101), i)) [k..<k + n]"

section \<open>Verified properties\<close>

subsection \<open>Classification\<close>

lemma Max_thresholds_met:
  assumes "0 < mi" "mi < ma" "ma < cr"
  shows "Max (insert 0 {t \<in> {mi, ma, cr}. t \<le> x}) =
     (if cr \<le> x then cr else if ma \<le> x then ma else if mi \<le> x then mi else (0::real))"
  using assms by (auto intro!: Max_eqI)

lemma determineAlert_threshold:
  "threshold (determineAlert c th p) =
     (if critical th \<le> \<bar>p\<bar> then critical th
      else if major th \<le> \<bar>p\<bar> then major th
      else if minor th \<le> \<bar>p\<bar> then minor th else 0)"
  by (simp add: determineAlert_def)

lemma determineIQAlert_threshold:
  "iq_threshold (determineIQAlert q ch p) =
     (if criticalThreshold q \<le> \<bar>p\<bar> then criticalThreshold q
      else if majorThreshold q \<le> \<bar>p\<bar> then majorThreshold q
      else if minorThreshold q \<le> \<bar>p\<bar> then minorThreshold q else 0)"
  by (simp add: determineIQAlert_def)

lemma checkTokenPrice_emitted:
  assumes "trackedTokens pw contract = Some token" and "thresholds (config token) = Some th"
  shows "emitted (checkTokenPrice pw contract (Inr cur) now) =
     emitted pw @
       (let p = calculatePercentageChange (lastPrice token) cur;
            d = determineAlert (config token) th p
        in (if \<bar>p\<bar> \<noteq> 0 \<and> shouldAlert d \<and> threshold d > 0 then
              [ev_alert \<lparr>pa_type = alertType d, pa_severity = alertSeverity d,
                 pa_tokenContract = contract, pa_tokenName = tokenName (config token),
                 pa_currentPrice = cur, pa_previousPrice = lastPrice token,
                 pa_change = cur - lastPrice token, pa_changePercentage = p,
                 pa_threshold = threshold d, pa_timestamp = now\<rparr>]
            else []) @
           (if \<bar>p\<bar> \<noteq> 0 \<and> tokenName (config token) = None then [ev_error insertFailed]
            else []))"
  using assms by (auto simp: checkTokenPrice_def Let_def split: option.splits)

lemma checkIQPrice_emitted:
  "iq_emitted (checkIQPrice iq (Inr cur) now) =
     iq_emitted iq @
       (let p = calculatePercentageChange (lastKnownPrice iq) cur;
            d = determineIQAlert (iq_config iq) (cur - lastKnownPrice iq) p
        in if lastKnownPrice iq > 0 \<and> \<bar>p\<bar> \<noteq> 0 \<and> iq_shouldAlert d \<and> iq_threshold d > 0 then
             [iq_alert \<lparr>ia_type = iq_alertType d, ia_severity = iq_alertSeverity d,
                ia_currentPrice = cur, ia_previousPrice = lastKnownPrice iq,
                ia_change = cur - lastKnownPrice iq, ia_changePercentage = p,
                ia_threshold = iq_threshold d, ia_timestamp = now\<rparr>]
           else [])"
  by (simp add: checkIQPrice_def recordIQPrice_def Let_def)

text \<open>
  Claim C1.  Let the thresholds satisfy \<open>0 < minor < major < critical\<close> and let the previous
  value be positive.  The percentage that is classified is
  \<open>(currentValue - previousValue) / previousValue * 100\<close>.  In the token price watcher and
  in the IQ price watcher the threshold that the chain of tests selects is the greatest of
  the three thresholds that the magnitude of that percentage reaches (0 when it reaches
  none), and severity, alert type and enable flag are those of that one tier.  A cycle emits
  the one alert of that tier when its flag is set and no alert otherwise (the token price
  watcher adds an error event when the stored name is \<open>undefined\<close> and the price changed).
  With thresholds 2, 10, 20 and previous value 100, the value 121 is a change of 21 percent
  and is classified critical, the value 103 is a change of 3 percent and is classified
  minor.
\<close>

theorem tier_is_highest_threshold_met:
  fixes c :: TokenWatchConfig and th :: ThresholdConfig and q :: IQWatcherConfig
    and previousValue currentValue :: real
  assumes th: "0 < minor th" "minor th < major th" "major th < critical th"
    and q: "0 < minorThreshold q" "minorThreshold q < majorThreshold q"
           "majorThreshold q < criticalThreshold q"
    and prev: "0 < previousValue"
  defines "p \<equiv> calculatePercentageChange previousValue currentValue"
  defines "d \<equiv> determineAlert c th p"
  defines "e \<equiv> determineIQAlert q (currentValue - previousValue) p"
  defines "ex \<equiv> \<lparr>minor = 2, major = 10, critical = 20\<rparr>"
  defines "exq \<equiv> q\<lparr>minorThreshold := 2, majorThreshold := 10, criticalThreshold := 20\<rparr>"
  shows
    "p = (currentValue - previousValue) / previousValue * 100 \<and>
     threshold d = Max (insert 0 {t \<in> {minor th, major th, critical th}. t \<le> \<bar>p\<bar>}) \<and>
     (alertSeverity d, alertType d, shouldAlert d) =
       (if threshold d = critical th then
          (Critical, critical_change, enableCriticalAlerts c = Some True)
        else if threshold d = major th then (High, major_change, enableMajorAlerts c = Some True)
        else if threshold d = minor th then (Low, minor_change, enableMinorAlerts c = Some True)
        else (Medium, significant_change, False)) \<and>
     iq_threshold e =
       Max (insert 0 {t \<in> {minorThreshold q, majorThreshold q, criticalThreshold q}.
                       t \<le> \<bar>p\<bar>}) \<and>
     (iq_alertSeverity e, iq_shouldAlert e) =
       (if iq_threshold e = criticalThreshold q then (Critical, iq_enableCriticalAlerts q)
        else if iq_threshold e = majorThreshold q then (High, iq_enableMajorAlerts q)
        else if iq_threshold e = minorThreshold q then (Low, iq_enableMinorAlerts q)
        else (Medium, False)) \<and>
     (\<forall>pw contract token now.
        trackedTokens pw contract = Some token \<and> config token = c \<and>
        thresholds c = Some th \<and> lastPrice token = previousValue \<longrightarrow>
        emitted (checkTokenPrice pw contract (Inr currentValue) now) =
          emitted pw @
            (if shouldAlert d then
               [ev_alert \<lparr>pa_type = alertType d, pa_severity = alertSeverity d,
                  pa_tokenContract = contract, pa_tokenName = tokenName c,
                  pa_currentPrice = currentValue, pa_previousPrice = previousValue,
                  pa_change = currentValue - previousValue, pa_changePercentage = p,
                  pa_threshold = threshold d, pa_timestamp = now\<rparr>]
             else []) @
            (if p \<noteq> 0 \<and> tokenName c = None then [ev_error insertFailed] else [])) \<and>
     (\<forall>iq now.
        iq_config iq = q \<and> lastKnownPrice iq = previousValue \<longrightarrow>
        iq_emitted (checkIQPrice iq (Inr currentValue) now) =
          iq_emitted iq @
            (if iq_shouldAlert e then
               [iq_alert \<lparr>ia_type = iq_alertType e, ia_severity = iq_alertSeverity e,
                  ia_currentPrice = currentValue, ia_previousPrice = previousValue,
                  ia_change = currentValue - previousValue, ia_changePercentage = p,
                  ia_threshold = iq_threshold e, ia_timestamp = now\<rparr>]
             else [])) \<and>
     calculatePercentageChange 100 121 = 21 \<and>
     calculatePercentageChange 100 103 = 3 \<and>
     alertType (determineAlert c ex (calculatePercentageChange 100 121)) = critical_change \<and>
     alertType (determineAlert c ex (calculatePercentageChange 100 103)) = minor_change \<and>
     iq_alertSeverity (determineIQAlert exq (121 - 100) (calculatePercentageChange 100 121)) =
       Critical \<and>
     iq_alertSeverity (determineIQAlert exq (103 - 100) (calculatePercentageChange 100 103)) =
       Low"
proof -
  have t0: "p = (currentValue - previousValue) / previousValue * 100"
    using prev by (simp add: p_def calculatePercentageChange_def)
  have t1: "threshold d = Max (insert 0 {t \<in> {minor th, major th, critical th}. t \<le> \<bar>p\<bar>})"
    unfolding d_def determineAlert_threshold Max_thresholds_met [OF th] ..
  have t2: "(alertSeverity d, alertType d, shouldAlert d) =
       (if threshold d = critical th then
          (Critical, critical_change, enableCriticalAlerts c = Some True)
        else if threshold d = major th then (High, major_change, enableMajorAlerts c = Some True)
        else if threshold d = minor th then (Low, minor_change, enableMinorAlerts c = Some True)
        else (Medium, significant_change, False))"
    using th by (simp add: d_def determineAlert_def)
  have t3: "iq_threshold e =
       Max (insert 0 {t \<in> {minorThreshold q, majorThreshold q, criticalThreshold q}.
                       t \<le> \<bar>p\<bar>})"
    unfolding e_def determineIQAlert_threshold Max_thresholds_met [OF q] ..
  have t4: "(iq_alertSeverity e, iq_shouldAlert e) =
       (if iq_threshold e = criticalThreshold q then (Critical, iq_enableCriticalAlerts q)
        else if iq_threshold e = majorThreshold q then (High, iq_enableMajorAlerts q)
        else if iq_threshold e = minorThreshold q then (Low, iq_enableMinorAlerts q)
        else (Medium, False))"
    using q by (simp add: e_def determineIQAlert_def)
  have pos_d: "shouldAlert d \<Longrightarrow> \<bar>p\<bar> \<noteq> 0 \<and> threshold d > 0"
    using th by (auto simp: d_def determineAlert_def split: if_splits)
  have pos_e: "iq_shouldAlert e \<Longrightarrow> \<bar>p\<bar> \<noteq> 0 \<and> iq_threshold e > 0"
    using q by (auto simp: e_def determineIQAlert_def split: if_splits)
  have t5: "emitted (checkTokenPrice pw contract (Inr currentValue) now) =
          emitted pw @
            (if shouldAlert d then
               [ev_alert \<lparr>pa_type = alertType d, pa_severity = alertSeverity d,
                  pa_tokenContract = contract, pa_tokenName = tokenName c,
                  pa_currentPrice = currentValue, pa_previousPrice = previousValue,
                  pa_change = currentValue - previousValue, pa_changePercentage = p,
                  pa_threshold = threshold d, pa_timestamp = now\<rparr>]
             else []) @
            (if p \<noteq> 0 \<and> tokenName c = None then [ev_error insertFailed] else [])"
    if "trackedTokens pw contract = Some token \<and> config token = c \<and>
        thresholds c = Some th \<and> lastPrice token = previousValue" for pw contract token now
  proof -
    from that have tr: "trackedTokens pw contract = Some token"
      and cf: "thresholds (config token) = Some th" by simp_all
    show ?thesis
      unfolding checkTokenPrice_emitted [OF tr cf]
      using that pos_d
      by (auto simp: Let_def p_def [symmetric] d_def [symmetric])
  qed
  have t6: "iq_emitted (checkIQPrice iq (Inr currentValue) now) =
          iq_emitted iq @
            (if iq_shouldAlert e then
               [iq_alert \<lparr>ia_type = iq_alertType e, ia_severity = iq_alertSeverity e,
                  ia_currentPrice = currentValue, ia_previousPrice = previousValue,
                  ia_change = currentValue - previousValue, ia_changePercentage = p,
                  ia_threshold = iq_threshold e, ia_timestamp = now\<rparr>]
             else [])"
    if "iq_config iq = q \<and> lastKnownPrice iq = previousValue" for iq now
    using that pos_e prev
    by (auto simp: checkIQPrice_emitted Let_def p_def [symmetric] e_def [symmetric])
  have t7: "calculatePercentageChange 100 121 = 21" "calculatePercentageChange 100 103 = 3"
    by (simp_all add: calculatePercentageChange_def)
  have t8: "alertType (determineAlert c ex (calculatePercentageChange 100 121)) = critical_change"
    "alertType (determineAlert c ex (calculatePercentageChange 100 103)) = minor_change"
    by (simp_all add: t7 ex_def determineAlert_def)
  have t9:
    "iq_alertSeverity (determineIQAlert exq (121 - 100) (calculatePercentageChange 100 121)) =
       Critical"
    "iq_alertSeverity (determineIQAlert exq (103 - 100) (calculatePercentageChange 100 103)) =
       Low"
    by (simp_all add: t7 exq_def determineIQAlert_def)
  from t0 t1 t2 t3 t4 t5 t6 t7 t8 t9 show ?thesis by blast
qed

theorem tier_is_highest_threshold_met_witness:
  "0 < minor exampleTiers \<and> minor exampleTiers < major exampleTiers \<and>
   major exampleTiers < critical exampleTiers \<and>
   0 < minorThreshold exampleIQConfig \<and>
   minorThreshold exampleIQConfig < majorThreshold exampleIQConfig \<and>
   majorThreshold exampleIQConfig < criticalThreshold exampleIQConfig \<and>
   calculatePercentageChange 1000 1021 = (1021 - 1000) / 1000 * 100 \<and>
   (alertSeverity
      (determineAlert exampleConfig exampleTiers (calculatePercentageChange 1000 1021)),
    alertType
      (determineAlert exampleConfig exampleTiers (calculatePercentageChange 1000 1021)),
    shouldAlert
      (determineAlert exampleConfig exampleTiers (calculatePercentageChange 1000 1021))) =
     (Low, minor_change, True) \<and>
   (iq_alertSeverity
      (determineIQAlert exampleIQConfig (1021 - 1000) (calculatePercentageChange 1000 1021)),
    iq_shouldAlert
      (determineIQAlert exampleIQConfig (1021 - 1000) (calculatePercentageChange 1000 1021))) =
     (Low, True)"
proof -
  have h1: "0 < minor exampleTiers"
    and h2: "minor exampleTiers < major exampleTiers"
    and h3: "major exampleTiers < critical exampleTiers"
    by (simp_all add: exampleTiers_def)
  have h4: "0 < minorThreshold exampleIQConfig"
    and h5: "minorThreshold exampleIQConfig < majorThreshold exampleIQConfig"
    and h6: "majorThreshold exampleIQConfig < criticalThreshold exampleIQConfig"
    by (simp_all add: exampleIQConfig_def)
  have h7: "(0::real) < 1000" by simp
  note T = tier_is_highest_threshold_met [OF h1 h2 h3 h4 h5 h6 h7, of 1021 exampleConfig]
  have pc: "calculatePercentageChange 1000 1021 = (1021 - 1000) / 1000 * 100"
    by (rule T [THEN conjunct1])
  have th: "threshold
      (determineAlert exampleConfig exampleTiers (calculatePercentageChange 1000 1021)) =
      minor exampleTiers"
    "iq_threshold (determineIQAlert exampleIQConfig (1021 - 1000)
       (calculatePercentageChange 1000 1021)) = minorThreshold exampleIQConfig"
    unfolding pc
    by (simp_all add: determineAlert_threshold determineIQAlert_threshold exampleTiers_def
        exampleIQConfig_def)
  have en: "enableMinorAlerts exampleConfig = Some True" "iq_enableMinorAlerts exampleIQConfig"
    by (simp_all add: exampleConfig_def exampleIQConfig_def)
  have a: "(alertSeverity
      (determineAlert exampleConfig exampleTiers (calculatePercentageChange 1000 1021)),
    alertType
      (determineAlert exampleConfig exampleTiers (calculatePercentageChange 1000 1021)),
    shouldAlert
      (determineAlert exampleConfig exampleTiers (calculatePercentageChange 1000 1021))) =
     (Low, minor_change, True)"
    using T [THEN conjunct2, THEN conjunct2, THEN conjunct1] en h1 h2 h3 unfolding th by simp
  have b: "(iq_alertSeverity
      (determineIQAlert exampleIQConfig (1021 - 1000) (calculatePercentageChange 1000 1021)),
    iq_shouldAlert
      (determineIQAlert exampleIQConfig (1021 - 1000) (calculatePercentageChange 1000 1021))) =
     (Low, True)"
    using T [THEN conjunct2, THEN conjunct2, THEN conjunct2, THEN conjunct2, THEN conjunct1]
      en h4 h5 h6
    unfolding th by simp
  from h1 h2 h3 h4 h5 h6 pc a b show ?thesis by blast
qed

subsection \<open>The milestone latch of the holdings watcher\<close>

lemma thresholdAlerts_append:
  "thresholdAlerts (xs @ ys) = thresholdAlerts xs @ thresholdAlerts ys"
  by (induction xs rule: thresholdAlerts.induct) auto

lemma checkHoldings_config: "hw_config (checkHoldings hw r now) = hw_config hw"
  by (cases r) (simp_all add: checkHoldings_def storeAndEmit_def Let_def)

lemma checkHoldings_latch:
  "thresholdReached (checkHoldings hw (Inr hs) now) \<longleftrightarrow>
     calculateHoldingsValue hs \<ge> thresholdUsd (hw_config hw)"
  by (auto simp add: checkHoldings_def storeAndEmit_def Let_def)

lemma checkHoldings_thresholdAlerts:
  "thresholdAlerts (hw_emitted (checkHoldings hw (Inr hs) now)) =
     thresholdAlerts (hw_emitted hw) @
       (if calculateHoldingsValue hs \<ge> thresholdUsd (hw_config hw) \<and> \<not> thresholdReached hw
        then [(calculateHoldingsValue hs, now)] else [])"
  by (simp add: checkHoldings_def storeAndEmit_def Let_def thresholdAlerts_append)

lemma calculateHoldingsValue_worth: "calculateHoldingsValue (worth v) = v"
  by (simp add: calculateHoldingsValue_def worth_def)

text \<open>
  Claim C2.  A successful cycle of the holdings watcher emits a \<open>threshold_reached\<close> alert
  exactly when the latch \<open>thresholdReached\<close> goes from false to true in that cycle, and after
  the cycle the latch is set exactly when the value is at or above \<open>thresholdUsd\<close>, so it is
  reset when the value falls below.  With threshold 1000, latch unset and no previous value,
  the samples 900, 1050, 1100, 950, 1200 add exactly two \<open>threshold_reached\<close> alerts: at the
  second sample (1050) and at the fifth (1200).
\<close>

theorem threshold_alert_only_on_latch_transition:
  fixes hw :: HoldingsWatcher and hs :: "Holding list" and now :: timestamp
  defines "hw' \<equiv> checkHoldings hw (Inr hs) now"
  shows
    "thresholdAlerts (hw_emitted hw') =
       thresholdAlerts (hw_emitted hw) @
         (if \<not> thresholdReached hw \<and> thresholdReached hw'
          then [(calculateHoldingsValue hs, now)] else []) \<and>
     (thresholdReached hw' \<longleftrightarrow> calculateHoldingsValue hs \<ge> thresholdUsd (hw_config hw)) \<and>
     (\<forall>w p1 p2 p3 p4 p5 t1 t2 t3 t4 t5.
        thresholdUsd (hw_config w) = 1000 \<and> \<not> thresholdReached w \<and> lastKnownValue w = 0 \<and>
        map calculateHoldingsValue [p1, p2, p3, p4, p5] = [900, 1050, 1100, 950, 1200] \<longrightarrow>
        thresholdAlerts (hw_emitted
          (monitorHoldings w
             [(Inr p1, t1), (Inr p2, t2), (Inr p3, t3), (Inr p4, t4), (Inr p5, t5)])) =
          thresholdAlerts (hw_emitted w) @ [(1050, t2), (1200, t5)])"
proof -
  have a: "thresholdAlerts (hw_emitted hw') =
       thresholdAlerts (hw_emitted hw) @
         (if \<not> thresholdReached hw \<and> thresholdReached hw'
          then [(calculateHoldingsValue hs, now)] else [])"
    unfolding hw'_def checkHoldings_thresholdAlerts checkHoldings_latch
    by (simp add: conj_commute)
  have b: "thresholdReached hw' \<longleftrightarrow> calculateHoldingsValue hs \<ge> thresholdUsd (hw_config hw)"
    unfolding hw'_def by (rule checkHoldings_latch)
  have c: "thresholdAlerts (hw_emitted
          (monitorHoldings w
             [(Inr p1, t1), (Inr p2, t2), (Inr p3, t3), (Inr p4, t4), (Inr p5, t5)])) =
          thresholdAlerts (hw_emitted w) @ [(1050, t2), (1200, t5)]"
    if "thresholdUsd (hw_config w) = 1000 \<and> \<not> thresholdReached w \<and> lastKnownValue w = 0 \<and>
        map calculateHoldingsValue [p1, p2, p3, p4, p5] = [900, 1050, 1100, 950, 1200]"
    for w p1 p2 p3 p4 p5 t1 t2 t3 t4 t5
    using that
    by (simp add: monitorHoldings_def checkHoldings_thresholdAlerts checkHoldings_latch
        checkHoldings_config)
  from a b c show ?thesis by blast
qed

theorem threshold_alert_only_on_latch_transition_witness:
  "thresholdUsd (hw_config exampleHoldingsWatcher) = 1000 \<and>
   \<not> thresholdReached exampleHoldingsWatcher \<and> lastKnownValue exampleHoldingsWatcher = 0 \<and>
   map calculateHoldingsValue [worth 900, worth 1050, worth 1100, worth 950, worth 1200] =
     [900, 1050, 1100, 950, 1200] \<and>
   thresholdAlerts (hw_emitted
     (monitorHoldings exampleHoldingsWatcher
        [(Inr (worth 900), 1), (Inr (worth 1050), 2), (Inr (worth 1100), 3),
         (Inr (worth 950), 4), (Inr (worth 1200), 5)])) = [(1050, 2), (1200, 5)]"
proof -
  have h: "thresholdUsd (hw_config exampleHoldingsWatcher) = 1000 \<and>
     \<not> thresholdReached exampleHoldingsWatcher \<and> lastKnownValue exampleHoldingsWatcher = 0 \<and>
     map calculateHoldingsValue [worth 900, worth 1050, worth 1100, worth 950, worth 1200] =
       [900, 1050, 1100, 950, 1200]"
    by (simp add: exampleHoldingsWatcher_def calculateHoldingsValue_worth)
  have e: "hw_emitted exampleHoldingsWatcher = []"
    by (simp add: exampleHoldingsWatcher_def)
  note run = threshold_alert_only_on_latch_transition
    [of exampleHoldingsWatcher "worth 900" 1, THEN conjunct2, THEN conjunct2, rule_format, OF h]
  have "thresholdAlerts (hw_emitted
     (monitorHoldings exampleHoldingsWatcher
        [(Inr (worth 900), 1), (Inr (worth 1050), 2), (Inr (worth 1100), 3),
         (Inr (worth 950), 4), (Inr (worth 1200), 5)])) =
     thresholdAlerts (hw_emitted exampleHoldingsWatcher) @ [(1050, 2), (1200, 5)]"
    by (rule run)
  with h e show ?thesis by simp
qed

text \<open>
  Claim C8.  On the first successful sample of the holdings watcher (no previous value, latch
  unset) a value at or above \<open>thresholdUsd\<close> emits the \<open>threshold_reached\<close> alert at once:
  it is the only event of the cycle, it is stored in \<open>alerts\<close>, and the latch is set.
\<close>

theorem first_sample_can_reach_threshold:
  assumes "lastKnownValue hw = 0" and "\<not> thresholdReached hw"
    and "calculateHoldingsValue hs \<ge> thresholdUsd (hw_config hw)"
  shows "hw_emitted (checkHoldings hw (Inr hs) now) =
           hw_emitted hw @
             [hw_alert \<lparr>ha_type = threshold_reached,
                ha_totalValue = calculateHoldingsValue hs,
                ha_previousValue = None, ha_change = None, ha_changePercentage = None,
                ha_holdings = hs, ha_timestamp = now\<rparr>] \<and>
         alerts (hw_db (checkHoldings hw (Inr hs) now)) =
           alerts (hw_db hw) @
             [\<lparr>al_type = for_holdings, al_token_contract = None, al_timestamp = now,
               al_triggered = False\<rparr>] \<and>
         thresholdReached (checkHoldings hw (Inr hs) now) \<and>
         lastKnownValue (checkHoldings hw (Inr hs) now) = calculateHoldingsValue hs"
  using assms by (simp add: checkHoldings_def storeAndEmit_def addAlert_def Let_def)

theorem first_sample_can_reach_threshold_witness:
  "lastKnownValue exampleHoldingsWatcher = 0 \<and> \<not> thresholdReached exampleHoldingsWatcher \<and>
   calculateHoldingsValue (worth 1500) \<ge> thresholdUsd (hw_config exampleHoldingsWatcher) \<and>
   hw_emitted (checkHoldings exampleHoldingsWatcher (Inr (worth 1500)) 1) =
     [hw_alert \<lparr>ha_type = threshold_reached, ha_totalValue = 1500,
        ha_previousValue = None, ha_change = None, ha_changePercentage = None,
        ha_holdings = worth 1500, ha_timestamp = 1\<rparr>]"
proof -
  have h1: "lastKnownValue exampleHoldingsWatcher = 0"
    and h2: "\<not> thresholdReached exampleHoldingsWatcher"
    and h3: "calculateHoldingsValue (worth 1500) \<ge> thresholdUsd (hw_config exampleHoldingsWatcher)"
    by (simp_all add: exampleHoldingsWatcher_def calculateHoldingsValue_worth)
  have e: "hw_emitted exampleHoldingsWatcher = []"
    by (simp add: exampleHoldingsWatcher_def)
  from first_sample_can_reach_threshold [OF h1 h2 h3, of 1] h1 h2 h3 e
  show ?thesis by (simp add: calculateHoldingsValue_worth)
qed

subsection \<open>A request that fails\<close>

lemma example_tracked: "trackedTokens examplePriceWatcher ''0xabc'' = Some exampleToken"
  by (simp add: examplePriceWatcher_def)

text \<open>
  Claim C5.  When the request of a cycle fails, the cycle of each of the three watchers
  returns the state it found, with the error event appended to the emitted events and the
  request noted: last value, last check time, latch, timer handle and every table of the
  database are as before, and no alert is emitted.
\<close>

theorem failed_fetch_changes_no_state:
  "(trackedTokens pw contract \<noteq> None \<longrightarrow>
      checkTokenPrice pw contract (Inl err) now =
        pw\<lparr>emitted := emitted pw @ [ev_error err], apiCalls := apiCalls pw @ [contract]\<rparr>) \<and>
   checkHoldings hw (Inl err) now =
     hw\<lparr>hw_emitted := hw_emitted hw @ [hw_error err],
        hw_apiCalls := hw_apiCalls hw @ [address (hw_config hw)]\<rparr> \<and>
   checkIQPrice iq (Inl err) now =
     iq\<lparr>iq_emitted := iq_emitted iq @ [iq_error err],
        iq_apiCalls := iq_apiCalls iq @ [''/prices'']\<rparr>"
proof (intro conjI impI)
  assume "trackedTokens pw contract \<noteq> None"
  then obtain token where "trackedTokens pw contract = Some token"
    by blast
  then show "checkTokenPrice pw contract (Inl err) now =
      pw\<lparr>emitted := emitted pw @ [ev_error err], apiCalls := apiCalls pw @ [contract]\<rparr>"
    by (simp add: checkTokenPrice_def)
next
  show "checkHoldings hw (Inl err) now =
     hw\<lparr>hw_emitted := hw_emitted hw @ [hw_error err],
        hw_apiCalls := hw_apiCalls hw @ [address (hw_config hw)]\<rparr>"
    by (simp add: checkHoldings_def)
next
  show "checkIQPrice iq (Inl err) now =
     iq\<lparr>iq_emitted := iq_emitted iq @ [iq_error err],
        iq_apiCalls := iq_apiCalls iq @ [''/prices'']\<rparr>"
    by (simp add: checkIQPrice_def)
qed

theorem failed_fetch_changes_no_state_witness:
  "trackedTokens examplePriceWatcher ''0xabc'' \<noteq> None \<and>
   checkTokenPrice examplePriceWatcher ''0xabc'' (Inl ''timeout'') 7 =
     examplePriceWatcher\<lparr>emitted := [ev_error ''timeout''], apiCalls := [''0xabc'']\<rparr>"
proof -
  have h: "trackedTokens examplePriceWatcher ''0xabc'' \<noteq> None"
    by (simp add: example_tracked)
  have e: "emitted examplePriceWatcher = []" "apiCalls examplePriceWatcher = []"
    by (simp_all add: examplePriceWatcher_def)
  from failed_fetch_changes_no_state [of examplePriceWatcher "''0xabc''" "''timeout''" 7]
  have "checkTokenPrice examplePriceWatcher ''0xabc'' (Inl ''timeout'') 7 =
        examplePriceWatcher\<lparr>emitted := emitted examplePriceWatcher @ [ev_error ''timeout''],
          apiCalls := apiCalls examplePriceWatcher @ [''0xabc'']\<rparr>"
    using h by blast
  with h e show ?thesis by simp
qed

subsection \<open>What a cycle of the token price watcher keeps\<close>

lemma configOf_emitted: "configOf (pw\<lparr>emitted := e\<rparr>) k = configOf pw k"
  by (simp add: configOf_def)

lemma setFields_price_rowKey:
  "rowKey (setFields (noUpdates\<lparr>u_lastPrice := Some v, u_lastCheckTime := Some t\<rparr>) now r) =
   rowKey r"
  by (simp add: setFields_def noUpdates_def orKeep_def rowKey_def rowTiers_def)

lemma checkTokenPrice_rowKey:
  "map rowKey (watched_tokens (db (checkTokenPrice pw c s now))) =
   map rowKey (watched_tokens (db pw))"
  by (auto simp: checkTokenPrice_def Let_def updateWatchedToken_def addPriceHistory_def
      setFields_price_rowKey split: option.splits sum.splits)

lemma checkTokenPrice_config: "configOf (checkTokenPrice pw c s now) k = configOf pw k"
  by (auto simp: configOf_def checkTokenPrice_def Let_def split: option.splits sum.splits)

lemma startTrackingToken_rowKey:
  "map rowKey (watched_tokens (db (snd (startTrackingToken pw c s now)))) =
   map rowKey (watched_tokens (db pw))"
  by (simp add: startTrackingToken_def checkTokenPrice_rowKey split: option.splits)

lemma startTrackingToken_config:
  "configOf (snd (startTrackingToken pw c s now)) k = configOf pw k"
  by (auto simp: startTrackingToken_def checkTokenPrice_config split: option.splits)
    (auto simp: configOf_def)

lemma startTrackingToken_outcome:
  "fst (startTrackingToken pw c s now) =
     (case trackedTokens pw c of
        None \<Rightarrow> Returned
      | Some token \<Rightarrow>
          (case thresholds (config token) of None \<Rightarrow> Threw typeError | Some th \<Rightarrow> Returned))"
  by (simp add: startTrackingToken_def split: option.splits)



lemma rowsOf_rowKey:
  "map rowKey (rowsOf d c) = filter (\<lambda>k. fst k = c) (map rowKey (watched_tokens d))"
  by (simp add: rowsOf_def filter_map comp_def rowKey_def)

lemma rowsOf_single:
  assumes "map rowKey (rowsOf d c) = [(c, a, x)]"
  shows "\<exists>r. rowsOf d c = [r] \<and> is_active r = a \<and> rowTiers r = x"
  using assms by (cases "rowsOf d c") (auto simp: rowKey_def)

subsection \<open>Adding a token\<close>

lemma addToken_result:
  assumes "trackedTokens pw contract = None"
  shows "fst (addToken pw contract name t interval (Inr usd) stats2 now) = Returned \<and>
    configOf (snd (addToken pw contract name t interval (Inr usd) stats2 now)) contract =
      Some \<lparr>tokenContract = Some contract, tokenName = Some name,
            thresholds = Some \<lparr>minor = t, major = t * 3, critical = t * 5\<rparr>,
            checkInterval = Some interval, enableMinorAlerts = Some True,
            enableMajorAlerts = Some True, enableCriticalAlerts = Some True\<rparr> \<and>
    map rowKey
      (rowsOf (db (snd (addToken pw contract name t interval (Inr usd) stats2 now))) contract) =
      [(contract, True, t, t * 3, t * 5)]"
proof -
  let ?r = "addToken pw contract name t interval (Inr usd) stats2 now"
  have 1: "fst ?r = Returned"
    using assms by (simp add: addToken_def Let_def startTrackingToken_outcome)
  have 2: "configOf (snd ?r) contract =
      Some \<lparr>tokenContract = Some contract, tokenName = Some name,
            thresholds = Some \<lparr>minor = t, major = t * 3, critical = t * 5\<rparr>,
            checkInterval = Some interval, enableMinorAlerts = Some True,
            enableMajorAlerts = Some True, enableCriticalAlerts = Some True\<rparr>"
    using assms
    by (simp add: addToken_def Let_def startTrackingToken_outcome startTrackingToken_config
        configOf_emitted)
      (simp_all add: configOf_def)
  have 3: "map rowKey (rowsOf (db (snd ?r)) contract) = [(contract, True, t, t * 3, t * 5)]"
  proof -
    have "map rowKey (watched_tokens (db (snd ?r))) =
        map rowKey (filter (\<lambda>r. token_contract r \<noteq> contract) (watched_tokens (db pw))) @
          [(contract, True, t, t * 3, t * 5)]"
      using assms
      by (simp add: addToken_def Let_def startTrackingToken_outcome startTrackingToken_rowKey
          addWatchedToken_def)
        (simp add: rowKey_def rowTiers_def)
    then show ?thesis
      by (simp add: rowsOf_rowKey filter_map comp_def rowKey_def)
  qed
  from 1 2 3 show ?thesis by blast
qed

lemma idle_untracked: "trackedTokens idleWatcher ''0xabc'' = None"
  by (simp add: idleWatcher_def)

text \<open>
  Claim C10.  For a threshold \<open>t > 0\<close> and a token that is not yet tracked, a successful
  \<open>addToken\<close> leaves in memory the tiers \<open>t\<close>, \<open>3t\<close>, \<open>5t\<close> and in \<open>watched_tokens\<close> one
  row of the token with the same three values; both satisfy
  \<open>0 < minor < major < critical\<close>.
\<close>

theorem addToken_thresholds_strictly_ordered:
  fixes pw :: PriceWatcher and contract name :: string and t interval usd :: real
    and stats2 :: "string + real" and now :: timestamp
  assumes "0 < t" and "trackedTokens pw contract = None"
  defines "pw' \<equiv> snd (addToken pw contract name t interval (Inr usd) stats2 now)"
  shows "(\<exists>c th. configOf pw' contract = Some c \<and> thresholds c = Some th \<and>
              th = \<lparr>minor = t, major = t * 3, critical = t * 5\<rparr> \<and>
              strictlyOrdered (minor th) (major th) (critical th)) \<and>
         (\<exists>r. rowsOf (db pw') contract = [r] \<and>
              rowTiers r = (t, t * 3, t * 5) \<and>
              strictlyOrdered (minor_threshold r) (major_threshold r) (critical_threshold r))"
proof -
  note res = addToken_result [OF assms(2), of name t interval usd stats2 now]
  have ord: "strictlyOrdered t (t * 3) (t * 5)"
    using assms(1) by (simp add: strictlyOrdered_def)
  from res have "configOf pw' contract =
      Some \<lparr>tokenContract = Some contract, tokenName = Some name,
            thresholds = Some \<lparr>minor = t, major = t * 3, critical = t * 5\<rparr>,
            checkInterval = Some interval, enableMinorAlerts = Some True,
            enableMajorAlerts = Some True, enableCriticalAlerts = Some True\<rparr>"
    unfolding pw'_def by blast
  with ord have mem: "\<exists>c th. configOf pw' contract = Some c \<and> thresholds c = Some th \<and>
              th = \<lparr>minor = t, major = t * 3, critical = t * 5\<rparr> \<and>
              strictlyOrdered (minor th) (major th) (critical th)"
    by simp
  from res have "map rowKey (rowsOf (db pw') contract) = [(contract, True, t, t * 3, t * 5)]"
    unfolding pw'_def by blast
  from rowsOf_single [OF this] obtain r where
    r: "rowsOf (db pw') contract = [r]" "rowTiers r = (t, t * 3, t * 5)"
    by blast
  with ord have "strictlyOrdered (minor_threshold r) (major_threshold r) (critical_threshold r)"
    by (simp add: rowTiers_def)
  with r mem show ?thesis by blast
qed

theorem addToken_thresholds_strictly_ordered_witness:
  "(0::real) < 2 \<and> trackedTokens idleWatcher ''0xabc'' = None \<and>
   Option.bind (configOf addedOnce ''0xabc'') thresholds =
     Some \<lparr>minor = 2, major = 6, critical = 10\<rparr> \<and>
   map rowTiers (rowsOf (db addedOnce) ''0xabc'') = [(2, 6, 10)] \<and>
   strictlyOrdered 2 6 10"
proof -
  have pos: "(0::real) < 2" by simp
  from addToken_thresholds_strictly_ordered
    [OF pos idle_untracked, of "''ABC''" 60 100 "Inr 100" 0]
  obtain c th r where
    c: "configOf addedOnce ''0xabc'' = Some c" "thresholds c = Some th"
      "th = \<lparr>minor = 2, major = 2 * 3, critical = 2 * 5\<rparr>"
      "strictlyOrdered (minor th) (major th) (critical th)"
    and r: "rowsOf (db addedOnce) ''0xabc'' = [r]" "rowTiers r = (2, 2 * 3, 2 * 5)"
    unfolding addedOnce_def by blast
  from c have "Option.bind (configOf addedOnce ''0xabc'') thresholds =
      Some \<lparr>minor = 2, major = 6, critical = 10\<rparr>"
    and "strictlyOrdered 2 6 10"
    by simp_all
  moreover from r have "map rowTiers (rowsOf (db addedOnce) ''0xabc'') = [(2, 6, 10)]"
    by simp
  ultimately show ?thesis using pos idle_untracked by blast
qed

text \<open>
  Claim C6.  \<open>addToken\<close> on a token that is already tracked returns the state it was given:
  no request is sent, no row is written, no event is emitted.  After a first successful
  \<open>addToken\<close> the token is tracked, \<open>watched_tokens\<close> holds exactly one active row of it,
  and a second \<open>addToken\<close>, whatever its arguments and whatever the API would answer, changes
  nothing.
\<close>

theorem addToken_idempotent_on_tracked:
  fixes pw :: PriceWatcher and contract name :: string and t interval usd :: real
    and stats2 :: "string + real" and now :: timestamp
  defines "pw1 \<equiv> snd (addToken pw contract name t interval (Inr usd) stats2 now)"
  shows "(trackedTokens pw contract \<noteq> None \<longrightarrow>
            addToken pw contract name t interval stats stats2 now = (Returned, pw)) \<and>
         (trackedTokens pw contract = None \<longrightarrow>
            trackedTokens pw1 contract \<noteq> None \<and>
            length (filter is_active (rowsOf (db pw1) contract)) = 1 \<and>
            addToken pw1 contract name' t' interval' stats' stats2' now' = (Returned, pw1))"
proof -
  have known: "addToken w contract n th i s s2 nw = (Returned, w)"
    if "trackedTokens w contract \<noteq> None" for w n th i s s2 nw
    using that by (simp add: addToken_def)
  have second: "trackedTokens pw1 contract \<noteq> None \<and>
            length (filter is_active (rowsOf (db pw1) contract)) = 1 \<and>
            addToken pw1 contract name' t' interval' stats' stats2' now' = (Returned, pw1)"
    if untracked: "trackedTokens pw contract = None"
  proof -
    note res = addToken_result [OF untracked, of name t interval usd stats2 now]
    from res have "configOf pw1 contract \<noteq> None"
      unfolding pw1_def by simp
    then have tracked: "trackedTokens pw1 contract \<noteq> None"
      by (simp add: configOf_def)
    from res have "map rowKey (rowsOf (db pw1) contract) = [(contract, True, t, t * 3, t * 5)]"
      unfolding pw1_def by blast
    from rowsOf_single [OF this] have "length (filter is_active (rowsOf (db pw1) contract)) = 1"
      by auto
    with tracked known [OF tracked] show ?thesis by blast
  qed
  from known second show ?thesis by blast
qed

theorem addToken_idempotent_on_tracked_witness:
  "trackedTokens idleWatcher ''0xabc'' = None \<and>
   trackedTokens addedOnce ''0xabc'' \<noteq> None \<and>
   length (filter is_active (rowsOf (db addedOnce) ''0xabc'')) = 1 \<and>
   addToken addedOnce ''0xabc'' ''ABC'' 2 60 (Inr 250) (Inr 260) 9 = (Returned, addedOnce) \<and>
   apiCalls addedOnce = [''0xabc''] \<and>
   emitted addedOnce = [ev_token_added ''0xabc'' ''ABC'' 100]"
proof -
  from addToken_idempotent_on_tracked
    [of idleWatcher "''0xabc''" "''ABC''" 2 60 "Inr 100" "Inr 100" 0 100
      "''ABC''" 2 60 "Inr 250" "Inr 260" 9]
  have "trackedTokens addedOnce ''0xabc'' \<noteq> None \<and>
    length (filter is_active (rowsOf (db addedOnce) ''0xabc'')) = 1 \<and>
    addToken addedOnce ''0xabc'' ''ABC'' 2 60 (Inr 250) (Inr 260) 9 = (Returned, addedOnce)"
    unfolding addedOnce_def using idle_untracked by blast
  moreover have "apiCalls addedOnce = [''0xabc'']"
    "emitted addedOnce = [ev_token_added ''0xabc'' ''ABC'' 100]"
    by (simp_all add: addedOnce_def addToken_def idleWatcher_def Let_def)
  ultimately show ?thesis using idle_untracked by blast
qed

subsection \<open>Changing the configuration of a token\<close>

text \<open>
  Claim C9.  \<open>updateTokenAlerts\<close> throws exactly when the token is not tracked, and then
  leaves the watcher and the database as they were; \<open>updateTokenConfig\<close> on a token that is
  not tracked returns without throwing and changes nothing.
\<close>

theorem updateTokenAlerts_throws_iff_untracked:
  "(fst (updateTokenAlerts pw contract alertConfig now) \<noteq> Returned \<longleftrightarrow>
      trackedTokens pw contract = None) \<and>
   (trackedTokens pw contract = None \<longrightarrow>
      updateTokenAlerts pw contract alertConfig now = (Threw (notTracked contract), pw) \<and>
      updateTokenConfig pw contract updates stats now = (Returned, pw))"
proof (cases "trackedTokens pw contract")
  case None
  then show ?thesis
    by (simp add: updateTokenAlerts_def updateTokenConfig_def)
next
  case (Some token)
  then have "fst (updateTokenAlerts pw contract alertConfig now) = Returned"
    by (simp add: updateTokenAlerts_def Let_def)
  with Some show ?thesis by simp
qed

theorem updateTokenAlerts_throws_iff_untracked_witness:
  "trackedTokens idleWatcher ''0xabc'' = None \<and>
   updateTokenAlerts idleWatcher ''0xabc'' allOff 3 =
     (Threw ''Token 0xabc is not being tracked'', idleWatcher) \<and>
   updateTokenConfig idleWatcher ''0xabc'' swappedTiers (Inr 100) 3 = (Returned, idleWatcher) \<and>
   fst (updateTokenAlerts examplePriceWatcher ''0xabc'' allOff 3) = Returned"
proof -
  note T = updateTokenAlerts_throws_iff_untracked
  from T [of idleWatcher "''0xabc''" allOff 3 swappedTiers "Inr 100"] idle_untracked
  have "updateTokenAlerts idleWatcher ''0xabc'' allOff 3 =
      (Threw (notTracked ''0xabc''), idleWatcher) \<and>
    updateTokenConfig idleWatcher ''0xabc'' swappedTiers (Inr 100) 3 = (Returned, idleWatcher)"
    by blast
  moreover from T [of examplePriceWatcher "''0xabc''" allOff 3] example_tracked
  have "fst (updateTokenAlerts examplePriceWatcher ''0xabc'' allOff 3) = Returned"
    by simp
  ultimately show ?thesis using idle_untracked by (simp add: notTracked_def)
qed













subsection \<open>The price history\<close>

lemma checkTokenPrice_step:
  assumes "lastPriceOf pw c = Some v" and "v \<noteq> 0" and "usd \<noteq> v"
    and "configOf pw c = Some cfg" and "thresholds cfg = Some th" and "tokenName cfg = Some name"
  shows "lastPriceOf (checkTokenPrice pw c (Inr usd) now) c = Some usd"
    and "length (historyOf (db (checkTokenPrice pw c (Inr usd) now)) c) =
         Suc (length (historyOf (db pw) c))"
  using assms
  by (auto simp: lastPriceOf_def configOf_def checkTokenPrice_def Let_def
      calculatePercentageChange_def historyOf_def addPriceHistory_def updateWatchedToken_def)

lemma monitorToken_config: "configOf (monitorToken pw c ticks) k = configOf pw k"
  unfolding monitorToken_def
  by (induction ticks arbitrary: pw) (auto simp: checkTokenPrice_config)

lemma monitorToken_rising:
  assumes "lastPriceOf pw c = Some (real k + 100)"
    and cfg: "configOf pw c = Some cfg" "thresholds cfg = Some th" "tokenName cfg = Some name"
  shows "lastPriceOf (monitorToken pw c (risingTicks k n)) c = Some (real (k + n) + 100) \<and>
         length (historyOf (db (monitorToken pw c (risingTicks k n))) c) =
           length (historyOf (db pw) c) + n"
proof (induction n)
  case 0
  then show ?case using assms(1) by (simp add: monitorToken_def risingTicks_def)
next
  case (Suc n)
  let ?w = "monitorToken pw c (risingTicks k n)"
  from Suc have last: "lastPriceOf ?w c = Some (real (k + n) + 100)"
    and len: "length (historyOf (db ?w) c) = length (historyOf (db pw) c) + n"
    by blast+
  have kept: "configOf ?w c = Some cfg"
    by (simp add: monitorToken_config cfg(1))
  have split: "monitorToken pw c (risingTicks k (Suc n)) =
      checkTokenPrice ?w c (Inr (real (k + n) + 101)) (k + n)"
    by (simp add: monitorToken_def risingTicks_def)
  have ne: "real (k + n) + 100 \<noteq> 0" "real (k + n) + 101 \<noteq> real (k + n) + 100"
    by simp_all
  have eq: "real (k + Suc n) + 100 = real (k + n) + 101"
    by simp
  show ?case
    unfolding split eq
    using checkTokenPrice_step [OF last ne kept cfg(2) cfg(3), of "k + n"] len by simp
qed

text \<open>
  Claim C7 does not hold of the code.  A cycle only appends to \<open>price_history\<close>, and no
  method of the watchers calls \<open>cleanOldPriceHistory\<close>: after 1001 ticks of a price that
  changes at every tick, the table holds 1001 rows of the token.
\<close>

theorem price_history_grows_past_1000:
  "length (historyOf (db (monitorToken examplePriceWatcher ''0xabc'' (risingTicks 0 1001)))
     ''0xabc'') = 1001"
proof -
  have last: "lastPriceOf examplePriceWatcher ''0xabc'' = Some (real 0 + 100)"
    by (simp add: lastPriceOf_def example_tracked exampleToken_def)
  have cfg: "configOf examplePriceWatcher ''0xabc'' = Some exampleConfig"
    "thresholds exampleConfig = Some exampleTiers" "tokenName exampleConfig = Some ''ABC''"
    by (simp_all add: configOf_def example_tracked exampleToken_def exampleConfig_def)
  from monitorToken_rising [OF last cfg, of 1001]
  show ?thesis
    by (simp add: historyOf_def examplePriceWatcher_def emptyDatabase_def)
qed

subsection \<open>A previous value below zero\<close>

text \<open>
  Claim C3 does not hold of the token price watcher.  \<open>checkTokenPrice\<close> has no test
  \<open>previousPrice > 0\<close>; \<open>calculatePercentageChange\<close> covers the previous value 0 only.  With
  the baseline \<open>-100\<close> and the next price \<open>-50\<close> the change is \<open>-50\<close> percent and a critical
  alert is emitted.  \<open>checkIQPrice\<close> and \<open>checkHoldings\<close>, which have the test, emit
  nothing on the same values.
\<close>

theorem negative_baseline_alerts:
  "lastPriceOf negativeBaseline ''0xabc'' = Some (- 100) \<and>
   emitted (checkTokenPrice negativeBaseline ''0xabc'' (Inr (- 50)) 1) =
     emitted negativeBaseline @
       [ev_alert \<lparr>pa_type = critical_change, pa_severity = Critical,
          pa_tokenContract = ''0xabc'', pa_tokenName = Some ''ABC'',
          pa_currentPrice = - 50, pa_previousPrice = - 100, pa_change = 50,
          pa_changePercentage = - 50, pa_threshold = 10, pa_timestamp = 1\<rparr>] \<and>
   iq_emitted (checkIQPrice (exampleIQWatcher\<lparr>lastKnownPrice := - 100\<rparr>) (Inr (- 50)) 1) = [] \<and>
   hw_emitted (checkHoldings (exampleHoldingsWatcher\<lparr>lastKnownValue := - 100\<rparr>)
      (Inr (worth (- 50))) 1) = []"
proof -
  have nb: "negativeBaseline =
     \<lparr>trackedTokens = [''0xabc'' \<mapsto>
         \<lparr>config = \<lparr>tokenContract = Some ''0xabc'', tokenName = Some ''ABC'',
                      thresholds = Some \<lparr>minor = 2, major = 6, critical = 10\<rparr>,
                      checkInterval = Some 60, enableMinorAlerts = Some True,
                      enableMajorAlerts = Some True, enableCriticalAlerts = Some True\<rparr>,
          lastPrice = - 100, lastCheckTime = 0, intervalId = None\<rparr>],
      isRunning = False,
      db = \<lparr>price_history = [], alerts = [],
             watched_tokens =
               [\<lparr>token_contract = ''0xabc'', token_name = ''ABC'', price_change_threshold = 2,
                  minor_threshold = 2, major_threshold = 6, critical_threshold = 10,
                  check_interval = 60, last_price = - 100, last_check_time = 0,
                  is_active = True, enable_minor_alerts = True, enable_major_alerts = True,
                  enable_critical_alerts = True, updated_at = 0\<rparr>]\<rparr>,
      emitted = [ev_token_added ''0xabc'' ''ABC'' (- 100)], apiCalls = [''0xabc'']\<rparr>"
    by (simp add: negativeBaseline_def addToken_def idleWatcher_def Let_def addWatchedToken_def
        emptyDatabase_def)
  have 1: "lastPriceOf negativeBaseline ''0xabc'' = Some (- 100)"
    by (simp add: nb lastPriceOf_def)
  have 2: "emitted (checkTokenPrice negativeBaseline ''0xabc'' (Inr (- 50)) 1) =
     emitted negativeBaseline @
       [ev_alert \<lparr>pa_type = critical_change, pa_severity = Critical,
          pa_tokenContract = ''0xabc'', pa_tokenName = Some ''ABC'',
          pa_currentPrice = - 50, pa_previousPrice = - 100, pa_change = 50,
          pa_changePercentage = - 50, pa_threshold = 10, pa_timestamp = 1\<rparr>]"
    unfolding nb
    by (simp add: checkTokenPrice_def Let_def calculatePercentageChange_def determineAlert_def)
  have 3: "iq_emitted (checkIQPrice (exampleIQWatcher\<lparr>lastKnownPrice := - 100\<rparr>) (Inr (- 50)) 1) = []"
    by (simp add: checkIQPrice_def recordIQPrice_def exampleIQWatcher_def Let_def)
  have 4: "hw_emitted (checkHoldings (exampleHoldingsWatcher\<lparr>lastKnownValue := - 100\<rparr>)
      (Inr (worth (- 50))) 1) = []"
    by (simp add: checkHoldings_def exampleHoldingsWatcher_def Let_def calculateHoldingsValue_worth)
  from 1 2 3 4 show ?thesis by blast
qed

end
